theory Spec2Isabelle
  imports Complex_Main "HOL-Library.AList"
begin

section \<open>Calendar dates\<close>

text \<open>
  The program stores a completion as the ISO string \<^verbatim>\<open>YYYY-MM-DD\<close> that
  \<^verbatim>\<open>date.isoformat()\<close> writes, sorts those strings, and parses them back with
  \<^verbatim>\<open>datetime.fromisoformat(...).date()\<close> before comparing. A date is modelled by its
  proleptic Gregorian ordinal (\<^verbatim>\<open>date.toordinal()\<close>): equality of dates is equality of
  ordinals, \<^verbatim>\<open>timedelta(days=1)\<close> is the integer 1, and the zero-padded ISO strings
  order lexicographically exactly as their ordinals do, so \<^verbatim>\<open>sorted\<close> on the strings
  is \<open>sort\<close> on the ordinals. The clock (\<^verbatim>\<open>datetime.now()\<close>) is a parameter of every
  operation that reads it.
\<close>

type_synonym date = int

text \<open>\<^verbatim>\<open>date.weekday()\<close>: Monday is 0; ordinal 1 (0001-01-01) is a Monday.\<close>

definition weekday :: "date \<Rightarrow> int" where
  "weekday d = (d + 6) mod 7"


section \<open>Streak computation (\<^verbatim>\<open>update_streaks\<close>, lines 69 to 99)\<close>

text \<open>
  The first loop walks the sorted completions from the last index down to 0 and stops at
  the first date that is neither \<open>prev_date\<close> nor the day before it. The function takes
  the dates in the order the loop visits them.
\<close>

fun current_loop :: "date \<Rightarrow> int \<Rightarrow> date list \<Rightarrow> int" where
  "current_loop prev_date current_streak [] = current_streak"
| "current_loop prev_date current_streak (comp_date # older) =
     (if comp_date = prev_date \<or> comp_date = prev_date - 1
      then current_loop comp_date (current_streak + 1) older
      else current_streak)"

text \<open>
  The second loop runs over the indices 1 .. len - 1 and compares each date with its
  predecessor; \<open>previous\<close> is \<^verbatim>\<open>completions[i-1]\<close>. It returns the pair
  \<open>(longest_streak, temp_streak)\<close> the loop ends with.
\<close>

fun longest_loop :: "date \<Rightarrow> int \<Rightarrow> int \<Rightarrow> date list \<Rightarrow> int \<times> int" where
  "longest_loop previous longest_streak temp_streak [] = (longest_streak, temp_streak)"
| "longest_loop previous longest_streak temp_streak (current # later) =
     (if current - previous = 1
      then longest_loop current longest_streak (temp_streak + 1) later
      else longest_loop current (max longest_streak temp_streak) 1 later)"

text \<open>
  The pair \<open>(current_streak, longest_streak)\<close> that \<^verbatim>\<open>update_streaks\<close> writes into the
  habit: both 0 for an empty list, otherwise the results of the two loops, the second
  closed by \<^verbatim>\<open>max(longest_streak, temp_streak)\<close>.
\<close>

definition compute_streaks :: "date \<Rightarrow> date list \<Rightarrow> int \<times> int" where
  "compute_streaks today cs =
     (case sort cs of
        [] \<Rightarrow> (0, 0)
      | first # later \<Rightarrow>
          (current_loop today 0 (rev (first # later)),
           (case longest_loop first 0 1 later of
              (longest_streak, temp_streak) \<Rightarrow> max longest_streak temp_streak)))"


section \<open>The store\<close>

text \<open>
  A dictionary key is a Python value: \<^verbatim>\<open>add_habit\<close> uses the integer
  \<^verbatim>\<open>len(...) + 1\<close>, the JSON file and the command line give strings. Python compares
  them by value and type: \<^verbatim>\<open>2 != "2"\<close>.
\<close>

datatype key = IntKey int | StrKey string

record habit =
  name :: string
  category :: string
  frequency :: string
  goal :: "string option"
  created_date :: string
  current_streak :: int
  longest_streak :: int

text \<open>
  A Python \<^verbatim>\<open>dict\<close> keeps insertion order: an association list with
  \<open>map_of\<close> for lookup, \<open>AList.update\<close> for \<^verbatim>\<open>d[k] = v\<close> (in place for a present
  key, appended for a new one), \<open>AList.delete\<close> for \<^verbatim>\<open>del d[k]\<close> and \<open>length\<close> for
  \<^verbatim>\<open>len\<close>. A dictionary has each key once; every operation below keeps that.
\<close>

type_synonym 'v dict = "(key \<times> 'v) list"

text \<open>\<^verbatim>\<open>self.habits\<close>: the two dictionaries under "habits" and "completions".\<close>

record store =
  habits :: "habit dict"
  completions :: "date list dict"

text \<open>The lifecycle link of the two dictionaries: the same identifiers in both.\<close>

definition linked :: "store \<Rightarrow> bool" where
  "linked d \<longleftrightarrow> set (map fst (habits d)) = set (map fst (completions d))"

text \<open>Every identifier of the store is a string, as in a store read from the file.\<close>

definition all_str_keys :: "store \<Rightarrow> bool" where
  "all_str_keys d \<longleftrightarrow>
     list_all (\<lambda>k. case k of StrKey s \<Rightarrow> True | IntKey i \<Rightarrow> False)
       (map fst (habits d) @ map fst (completions d))"


section \<open>Persistence (\<^verbatim>\<open>save_data\<close>, \<^verbatim>\<open>load_data\<close>)\<close>

text \<open>
  \<^verbatim>\<open>json.dump\<close> writes an object member for every dictionary entry, in order, and
  turns a key that is an integer into its decimal string; \<^verbatim>\<open>json.load\<close> reads the
  members in order into a dictionary whose keys are strings, a repeated member name
  keeping its first position and its last value. The values (strings, integers,
  \<^verbatim>\<open>None\<close>, lists of date strings) are written and read back unchanged. The document
  is the pair of member lists; the concrete text between dump and load is not modelled.
\<close>

fun digits10 :: "nat \<Rightarrow> string" where
  "digits10 n =
     (if n < 10 then [char_of (48 + n)]
      else digits10 (n div 10) @ [char_of (48 + n mod 10)])"

declare digits10.simps [simp del]

definition str_int :: "int \<Rightarrow> string" where
  "str_int i = (if i < 0 then CHR ''-'' # digits10 (nat (- i)) else digits10 (nat i))"

fun json_key :: "key \<Rightarrow> string" where
  "json_key (StrKey s) = s"
| "json_key (IntKey i) = str_int i"

record json_doc =
  json_habits :: "(string \<times> habit) list"
  json_completions :: "(string \<times> date list) list"

definition json_dump :: "store \<Rightarrow> json_doc" where
  "json_dump d =
     \<lparr>json_habits = map (\<lambda>(k, h). (json_key k, h)) (habits d),
      json_completions = map (\<lambda>(k, cs). (json_key k, cs)) (completions d)\<rparr>"

definition json_object :: "(string \<times> 'v) list \<Rightarrow> 'v dict" where
  "json_object members = foldl (\<lambda>d (k, v). AList.update (StrKey k) v d) [] members"

definition json_load :: "json_doc \<Rightarrow> store" where
  "json_load doc =
     \<lparr>habits = json_object (json_habits doc),
      completions = json_object (json_completions doc)\<rparr>"

text \<open>
  The tracker object: \<open>data\<close> is \<^verbatim>\<open>self.habits\<close>, \<open>disk\<close> is the content of
  \<^verbatim>\<open>self.data_file\<close> (\<open>None\<close> while the file does not exist).
\<close>

record tracker =
  data :: store
  disk :: "json_doc option"

definition save_data :: "tracker \<Rightarrow> tracker" where
  "save_data t = t\<lparr>disk := Some (json_dump (data t))\<rparr>"

definition load_data :: "tracker \<Rightarrow> store" where
  "load_data t =
     (case disk t of
        Some doc \<Rightarrow> json_load doc
      | None \<Rightarrow> \<lparr>habits = [], completions = []\<rparr>)"

text \<open>\<^verbatim>\<open>HabitTracker(data_file)\<close>: the constructor loads the file.\<close>

definition init :: "json_doc option \<Rightarrow> tracker" where
  "init file = \<lparr>data = load_data \<lparr>data = \<lparr>habits = [], completions = []\<rparr>, disk = file\<rparr>,
                disk = file\<rparr>"


section \<open>Operations\<close>

text \<open>
  An operation returns what the call does: the value returned or the exception raised,
  the lines it printed, and the tracker afterwards (mutations made before an exception
  stay).
\<close>

datatype exn = KeyError key | ZeroDivisionError

datatype 'a outcome = Returned 'a | Raised exn

datatype message =
    Added string
  | AlreadyCompleted
  | Marked string
  | Deleted string
  | NotFound
  | InvalidHabitId

definition add_habit ::
  "string \<Rightarrow> string \<Rightarrow> string \<Rightarrow> string option \<Rightarrow> string \<Rightarrow> tracker
     \<Rightarrow> key outcome \<times> message list \<times> tracker" where
  "add_habit nm cat freq gl now t =
     (let d = data t;
          habit_id = IntKey (int (length (habits d)) + 1);
          hs = AList.update habit_id
                 \<lparr>name = nm, category = cat, frequency = freq, goal = gl,
                  created_date = now, current_streak = 0, longest_streak = 0\<rparr>
                 (habits d);
          cs = (if map_of (completions d) habit_id = None
                then AList.update habit_id [] (completions d)
                else completions d)
      in (Returned habit_id, [Added nm],
          save_data (t\<lparr>data := \<lparr>habits = hs, completions = cs\<rparr>\<rparr>)))"

text \<open>
  \<^verbatim>\<open>update_streaks\<close>: line 69 reads \<^verbatim>\<open>completions[habit_id]\<close> and lines 101, 102
  index \<^verbatim>\<open>habits[habit_id]\<close>; each raises \<^verbatim>\<open>KeyError\<close> on a missing key.
\<close>

definition update_streaks :: "date \<Rightarrow> key \<Rightarrow> store \<Rightarrow> exn + store" where
  "update_streaks today habit_id d =
     (case map_of (completions d) habit_id of
        None \<Rightarrow> Inl (KeyError habit_id)
      | Some cs \<Rightarrow>
          (case compute_streaks today cs of
             (cur, lng) \<Rightarrow>
               (case map_of (habits d) habit_id of
                  None \<Rightarrow> Inl (KeyError habit_id)
                | Some h \<Rightarrow>
                    Inr (d\<lparr>habits :=
                            AList.update habit_id
                              (h\<lparr>current_streak := cur, longest_streak := lng\<rparr>)
                              (habits d)\<rparr>))))"

definition mark_complete ::
  "date \<Rightarrow> key \<Rightarrow> tracker \<Rightarrow> bool outcome \<times> message list \<times> tracker" where
  "mark_complete today habit_id t =
     (let d = data t;
          comps = (if map_of (completions d) habit_id = None
                   then AList.update habit_id [] (completions d)
                   else completions d);
          d1 = d\<lparr>completions := comps\<rparr>
      in case map_of comps habit_id of
           None \<Rightarrow> (Raised (KeyError habit_id), [], t\<lparr>data := d1\<rparr>)
         | Some logged \<Rightarrow>
             if today \<in> set logged
             then (Returned False, [AlreadyCompleted], t\<lparr>data := d1\<rparr>)
             else
               (let d2 = d1\<lparr>completions :=
                              AList.update habit_id (logged @ [today]) comps\<rparr>
                in case update_streaks today habit_id d2 of
                     Inl e \<Rightarrow> (Raised e, [], t\<lparr>data := d2\<rparr>)
                   | Inr d3 \<Rightarrow>
                       (let t3 = save_data (t\<lparr>data := d3\<rparr>)
                        in case map_of (habits d3) habit_id of
                             None \<Rightarrow> (Raised (KeyError habit_id), [], t3)
                           | Some h \<Rightarrow> (Returned True, [Marked (name h)], t3))))"

definition delete_habit ::
  "key \<Rightarrow> tracker \<Rightarrow> unit outcome \<times> message list \<times> tracker" where
  "delete_habit habit_id t =
     (let d = data t
      in case map_of (habits d) habit_id of
           Some h \<Rightarrow>
             (let d1 = d\<lparr>habits := AList.delete habit_id (habits d)\<rparr>
              in case map_of (completions d) habit_id of
                   None \<Rightarrow> (Raised (KeyError habit_id), [], t\<lparr>data := d1\<rparr>)
                 | Some cs \<Rightarrow>
                     (Returned (), [Deleted (name h)],
                      save_data
                        (t\<lparr>data := d1\<lparr>completions :=
                                       AList.delete habit_id (completions d)\<rparr>\<rparr>)))
         | None \<Rightarrow> (Returned (), [NotFound], t))"

text \<open>
  The menu choices 2 and 6 of \<^verbatim>\<open>run\<close>: the text typed at the prompt is passed on as
  it is, a string; an empty input does nothing, and any exception is caught and
  answered with "Invalid habit ID!".
\<close>

definition run_mark_complete :: "date \<Rightarrow> string \<Rightarrow> tracker \<Rightarrow> message list \<times> tracker" where
  "run_mark_complete today input t =
     (if input = [] then ([], t)
      else case mark_complete today (StrKey input) t of
             (Returned b, out, t') \<Rightarrow> (out, t')
           | (Raised e, out, t') \<Rightarrow> (out @ [InvalidHabitId], t'))"

definition run_delete_habit :: "string \<Rightarrow> tracker \<Rightarrow> message list \<times> tracker" where
  "run_delete_habit input t =
     (if input = [] then ([], t)
      else case delete_habit (StrKey input) t of
             (Returned u, out, t') \<Rightarrow> (out, t')
           | (Raised e, out, t') \<Rightarrow> (out @ [InvalidHabitId], t'))"

text \<open>A store operation, for sequences of operations.\<close>

datatype operation =
    AddHabit string string string "string option" string
  | MarkComplete date key
  | DeleteHabit key

fun apply_operation :: "operation \<Rightarrow> tracker \<Rightarrow> tracker" where
  "apply_operation (AddHabit nm cat freq gl now) t = snd (snd (add_habit nm cat freq gl now t))"
| "apply_operation (MarkComplete today habit_id) t = snd (snd (mark_complete today habit_id t))"
| "apply_operation (DeleteHabit habit_id) t = snd (snd (delete_habit habit_id t))"

definition apply_operations :: "operation list \<Rightarrow> tracker \<Rightarrow> tracker" where
  "apply_operations ops t = foldl (\<lambda>s operation. apply_operation operation s) t ops"


section \<open>Reports\<close>

text \<open>
  Python's \<^verbatim>\<open>/\<close> on numbers raises \<^verbatim>\<open>ZeroDivisionError\<close> for a zero divisor. The
  quotient is taken in the rationals: the rounding of the binary floating-point result
  is not modelled.
\<close>

definition true_div :: "rat \<Rightarrow> rat \<Rightarrow> exn + rat" where
  "true_div a b = (if b = 0 then Inl ZeroDivisionError else Inr (a / b))"

text \<open>\<^verbatim>\<open>int(x)\<close> on a float truncates towards zero.\<close>

definition py_int :: "rat \<Rightarrow> int" where
  "py_int x = (if 0 \<le> x then \<lfloor>x\<rfloor> else \<lceil>x\<rceil>)"

text \<open>
  The expression \<^verbatim>\<open>(completed / total) * 100 if total > 0 else 0\<close> of lines 168, 179
  and 204.
\<close>

definition percentage :: "int \<Rightarrow> int \<Rightarrow> exn + rat" where
  "percentage completed whole =
     (if whole > 0
      then (case true_div (of_int completed) (of_int whole) of
              Inl e \<Rightarrow> Inl e
            | Inr q \<Rightarrow> Inr (q * 100))
      else Inr 0)"

text \<open>\<^verbatim>\<open>sum(streaks) / len(streaks) if streaks else 0\<close> of line 205.\<close>

definition average :: "int list \<Rightarrow> exn + rat" where
  "average streaks =
     (if streaks \<noteq> []
      then true_div (of_int (sum_list streaks)) (of_int (int (length streaks)))
      else Inr 0)"

text \<open>\<^verbatim>\<open>max(streaks) if streaks else 0\<close> of line 210.\<close>

definition best :: "int list \<Rightarrow> int" where
  "best streaks = (case streaks of [] \<Rightarrow> 0 | s # rest \<Rightarrow> fold max rest s)"

text \<open>Results in sequence: the first exception ends the loop.\<close>

fun collect :: "(exn + 'a) list \<Rightarrow> exn + 'a list" where
  "collect [] = Inr []"
| "collect (r # rs) =
     (case r of
        Inl e \<Rightarrow> Inl e
      | Inr x \<Rightarrow> (case collect rs of Inl e \<Rightarrow> Inl e | Inr xs \<Rightarrow> Inr (x # xs)))"

definition get_today_completions :: "date \<Rightarrow> store \<Rightarrow> key list" where
  "get_today_completions today d =
     map fst (filter (\<lambda>(habit_id, cs). today \<in> set cs) (completions d))"

text \<open>
  One printed line of the weekly calendar (lines 165 to 174): the counts, the
  percentage, and the numbers of full and empty blocks of the progress bar,
  \<^verbatim>\<open>int(percentage / 20)\<close> and \<^verbatim>\<open>5 - int(percentage / 20)\<close>.
\<close>

record day_line =
  line_date :: date
  line_completed :: int
  line_total :: int
  line_percentage :: rat
  line_full :: int
  line_empty :: int

definition day_line_of :: "date \<Rightarrow> int \<Rightarrow> int \<Rightarrow> exn + day_line" where
  "day_line_of day completed whole =
     (case percentage completed whole of
        Inl e \<Rightarrow> Inl e
      | Inr pct \<Rightarrow>
          (case true_div pct 20 of
             Inl e \<Rightarrow> Inl e
           | Inr q \<Rightarrow>
               Inr \<lparr>line_date = day, line_completed = completed, line_total = whole,
                    line_percentage = pct, line_full = py_int q,
                    line_empty = 5 - py_int q\<rparr>))"

record weekly_report =
  week_lines :: "day_line list"
  week_completed :: int
  week_possible :: int
  week_percentage :: rat

definition week_dates :: "date \<Rightarrow> date list" where
  "week_dates today = map (\<lambda>i. today - weekday today + int i) [0..<7]"

definition day_completions :: "store \<Rightarrow> date \<Rightarrow> int" where
  "day_completions d day =
     int (length (filter (\<lambda>cs. day \<in> set cs) (map snd (completions d))))"

definition view_weekly_report :: "date \<Rightarrow> store \<Rightarrow> exn + weekly_report" where
  "view_weekly_report today d =
     (let total_habits = int (length (habits d));
          daily_completions = map (day_completions d) (week_dates today)
      in case collect (map (\<lambda>(day, completed). day_line_of day completed total_habits)
                         (zip (week_dates today) daily_completions)) of
           Inl e \<Rightarrow> Inl e
         | Inr ls \<Rightarrow>
             (let completed = sum_list daily_completions;
                  possible = total_habits * 7
              in case percentage completed possible of
                   Inl e \<Rightarrow> Inl e
                 | Inr pct \<Rightarrow>
                     Inr \<lparr>week_lines = ls, week_completed = completed,
                          week_possible = possible, week_percentage = pct\<rparr>))"

text \<open>
  \<^verbatim>\<open>category_stats\<close> is a \<^verbatim>\<open>defaultdict\<close>: reading a missing category inserts the
  entry with total 0, completed 0 and no streaks (the keys "total", "completed" and
  "streaks" of an entry are the fields \<open>n_total\<close>, \<open>n_completed\<close> and \<open>streak_list\<close>).
\<close>

record cat_stats =
  n_total :: int
  n_completed :: int
  streak_list :: "int list"

definition stats_of :: "(string \<times> cat_stats) list \<Rightarrow> string \<Rightarrow> cat_stats" where
  "stats_of category_stats cat =
     (case map_of category_stats cat of
        Some s \<Rightarrow> s
      | None \<Rightarrow> \<lparr>n_total = 0, n_completed = 0, streak_list = []\<rparr>)"

definition count_habit :: "(string \<times> cat_stats) list \<Rightarrow> key \<times> habit \<Rightarrow> (string \<times> cat_stats) list" where
  "count_habit category_stats entry =
     (let h = snd entry; s = stats_of category_stats (category h)
      in AList.update (category h)
           (s\<lparr>n_total := n_total s + 1, streak_list := streak_list s @ [current_streak h]\<rparr>)
           category_stats)"

fun count_completed ::
  "habit dict \<Rightarrow> key list \<Rightarrow> (string \<times> cat_stats) list \<Rightarrow> exn + (string \<times> cat_stats) list" where
  "count_completed hs [] category_stats = Inr category_stats"
| "count_completed hs (habit_id # rest) category_stats =
     (case map_of hs habit_id of
        None \<Rightarrow> Inl (KeyError habit_id)
      | Some h \<Rightarrow>
          (let s = stats_of category_stats (category h)
           in count_completed hs rest
                (AList.update (category h) (s\<lparr>n_completed := n_completed s + 1\<rparr>) category_stats)))"

record category_line =
  cat_name :: string
  cat_completed :: int
  cat_total :: int
  cat_rate :: rat
  cat_average :: rat
  cat_best :: int

definition category_line_of :: "string \<times> cat_stats \<Rightarrow> exn + category_line" where
  "category_line_of entry =
     (let s = snd entry
      in case percentage (n_completed s) (n_total s) of
           Inl e \<Rightarrow> Inl e
         | Inr rate \<Rightarrow>
             (case average (streak_list s) of
                Inl e \<Rightarrow> Inl e
              | Inr avg \<Rightarrow>
                  Inr \<lparr>cat_name = fst entry, cat_completed = n_completed s,
                       cat_total = n_total s, cat_rate = rate, cat_average = avg,
                       cat_best = best (streak_list s)\<rparr>))"

definition view_category_stats :: "date \<Rightarrow> store \<Rightarrow> exn + category_line list" where
  "view_category_stats today d =
     (case count_completed (habits d) (get_today_completions today d)
             (foldl count_habit [] (habits d)) of
        Inl e \<Rightarrow> Inl e
      | Inr category_stats \<Rightarrow> collect (map category_line_of category_stats))"


text \<open>
  Every count of habits in \<^verbatim>\<open>category_stats\<close> starts at 0 and is only incremented:
  the invariant of the two counting loops.
\<close>

definition totals_nonneg :: "(string \<times> cat_stats) list \<Rightarrow> bool" where
  "totals_nonneg st \<longleftrightarrow> (\<forall>e \<in> set st. 0 \<le> n_total (snd e))"


section \<open>Properties of the streak computation\<close>

lemma current_loop_acc: "current_loop p k xs = current_loop p 0 xs + k"
proof (induction xs arbitrary: p k)
  case Nil
  show ?case by simp
next
  case (Cons c xs)
  have a: "current_loop c (k + 1) xs = current_loop c 0 xs + (k + 1)"
    by (rule Cons.IH)
  have b: "current_loop c (0 + 1) xs = current_loop c 0 xs + (0 + 1)"
    by (rule Cons.IH)
  show ?case
  proof (cases "c = p \<or> c = p - 1")
    case True
    then have "current_loop p k (c # xs) = current_loop c (k + 1) xs"
      and "current_loop p 0 (c # xs) = current_loop c (0 + 1) xs"
      by simp_all
    with a b show ?thesis by simp
  next
    case False
    then show ?thesis by simp
  qed
qed

lemma current_loop_nonneg: "0 \<le> k \<Longrightarrow> 0 \<le> current_loop p k xs"
  by (induction xs arbitrary: p k) auto

lemma longest_loop_snoc:
  "longest_loop p l t (cs @ [c]) =
     (case longest_loop p l t cs of
        (l', t') \<Rightarrow> if c - last (p # cs) = 1 then (l', t' + 1) else (max l' t', 1))"
  by (induction cs arbitrary: p l t) auto

lemma rev_last_butlast: "xs \<noteq> [] \<Longrightarrow> rev xs = last xs # rev (butlast xs)"
  by (induction xs rule: rev_induct) auto

lemma sorted_le_last: "x \<in> set xs \<Longrightarrow> sorted xs \<Longrightarrow> x \<le> last xs"
  for x :: int
  by (induction xs) auto

text \<open>
  On strictly increasing dates, the run the first loop counts from the newest date is
  no longer than the run the second loop is in when it ends.
\<close>

lemma run_le_temp:
  "sorted_wrt (<) (a # cs) \<Longrightarrow>
   current_loop (last (a # cs)) 1 (rev (butlast (a # cs))) \<le> snd (longest_loop a 0 1 cs)"
proof (induction cs rule: rev_induct)
  case Nil
  then show ?case by simp
next
  case (snoc c cs)
  define p where "p = last (a # cs)"
  define older where "older = rev (butlast (a # cs))"
  obtain l t where lt: "longest_loop a 0 1 cs = (l, t)"
    by (cases "longest_loop a 0 1 cs")
  from snoc.prems have sw: "sorted_wrt (<) (a # cs)" and less: "p < c"
    by (auto simp: sorted_wrt_append p_def)
  have ih: "current_loop p 1 older \<le> t"
    using snoc.IH[OF sw] lt by (simp only: p_def older_def snd_conv)
  have r: "rev (a # cs) = p # older"
    unfolding p_def older_def by (rule rev_last_butlast) simp
  have bl: "butlast (a # cs @ [c]) = a # cs"
    by (metis append_Cons butlast_snoc)
  have la: "last (a # cs @ [c]) = c"
    by simp
  have step: "longest_loop a 0 1 (cs @ [c]) = (if c - p = 1 then (l, t + 1) else (max l t, 1))"
    by (simp only: longest_loop_snoc lt p_def prod.case)
  have "current_loop c 1 (p # older) \<le> snd (longest_loop a 0 1 (cs @ [c]))"
  proof (cases "c - p = 1")
    case True
    then have "current_loop c 1 (p # older) = current_loop p (1 + 1) older"
      by simp
    also have "\<dots> = current_loop p 1 older + 1"
      using current_loop_acc[of p "1 + 1" older] current_loop_acc[of p 1 older] by simp
    finally show ?thesis using ih True step by simp
  next
    case False
    with less have "current_loop c 1 (p # older) = 1"
      by simp
    then show ?thesis using False step by simp
  qed
  then show ?case
    by (simp only: bl la r)
qed

lemma current_le_longest:
  assumes "distinct cs"
  shows "fst (compute_streaks today cs) \<le> snd (compute_streaks today cs)"
proof (cases "sort cs")
  case Nil
  then show ?thesis by (simp add: compute_streaks_def)
next
  case (Cons a s)
  have sw: "sorted_wrt (<) (a # s)"
    using assms Cons by (metis distinct_sort sorted_sort strict_sorted_iff)
  define m where "m = last (a # s)"
  define older where "older = rev (butlast (a # s))"
  obtain l t where lt: "longest_loop a 0 1 s = (l, t)"
    by (cases "longest_loop a 0 1 s")
  have r: "rev (a # s) = m # older"
    unfolding m_def older_def by (rule rev_last_butlast) simp
  have le: "current_loop m 1 older \<le> t"
    using run_le_temp[OF sw] lt by (simp only: m_def older_def snd_conv)
  have "0 \<le> current_loop m 1 older"
    by (rule current_loop_nonneg) simp
  then have "current_loop today 0 (m # older) \<le> current_loop m 1 older"
    by simp
  with le have "current_loop today 0 (rev (a # s)) \<le> max l t"
    unfolding r by simp
  then show ?thesis
    by (simp only: compute_streaks_def Cons list.case lt prod.case fst_conv snd_conv)
qed

text \<open>
  The log is a set: \<open>mark_complete\<close> never appends a date that is already there. A
  list that holds a date twice is outside the claim; there the first loop counts the
  repeated date twice and the second loop once.
\<close>

lemma repeated_date_streaks: "compute_streaks 10 [10, 10] = (2, 1)"
  by (simp add: compute_streaks_def)

text \<open>
  C1. For a habit whose completion log holds each date once, \<open>update_streaks\<close> returns,
  writes into the habit the two streaks computed from the log for the reference date
  \<open>today\<close>, and the longest streak it writes is at least the current streak.
\<close>

theorem update_streaks_longest_ge_current:
  assumes "map_of (completions d) habit_id = Some cs"
    and "distinct cs"
    and "map_of (habits d) habit_id = Some h"
  shows "\<exists>d' h'. update_streaks today habit_id d = Inr d'
           \<and> map_of (habits d') habit_id = Some h'
           \<and> (current_streak h', longest_streak h') = compute_streaks today cs
           \<and> current_streak h' \<le> longest_streak h'"
proof -
  obtain cur lng where cl: "compute_streaks today cs = (cur, lng)"
    by (cases "compute_streaks today cs")
  have "cur \<le> lng"
    using current_le_longest[OF assms(2), of today] cl by simp
  then show ?thesis
    using assms(1,3) cl by (simp add: update_streaks_def update_conv')
qed

theorem update_streaks_longest_ge_current_witness:
  "map_of (completions
        \<lparr>habits = [(StrKey ''1'',
            \<lparr>name = ''Run'', category = ''Health'', frequency = ''daily'', goal = None,
             created_date = ''2024-01-01T08:00:00'', current_streak = 0,
             longest_streak = 0\<rparr>)],
         completions = [(StrKey ''1'', [100, 95, 99, 94, 93])]\<rparr>) (StrKey ''1'')
     = Some [100, 95, 99, 94, 93]
   \<and> distinct [100, 95, 99, 94, 93 :: int]
   \<and> (\<exists>d' h'. update_streaks 100 (StrKey ''1'')
          \<lparr>habits = [(StrKey ''1'',
              \<lparr>name = ''Run'', category = ''Health'', frequency = ''daily'', goal = None,
               created_date = ''2024-01-01T08:00:00'', current_streak = 0,
               longest_streak = 0\<rparr>)],
           completions = [(StrKey ''1'', [100, 95, 99, 94, 93])]\<rparr> = Inr d'
        \<and> map_of (habits d') (StrKey ''1'') = Some h'
        \<and> (current_streak h', longest_streak h') = (2, 3)
        \<and> current_streak h' \<le> longest_streak h')"
proof -
  let ?h = "\<lparr>name = ''Run'', category = ''Health'', frequency = ''daily'', goal = None,
             created_date = ''2024-01-01T08:00:00'', current_streak = 0,
             longest_streak = 0\<rparr>"
  let ?d = "\<lparr>habits = [(StrKey ''1'', ?h)],
            completions = [(StrKey ''1'', [100, 95, 99, 94, 93])]\<rparr>"
  have h1: "map_of (completions ?d) (StrKey ''1'') = Some [100, 95, 99, 94, 93]"
    by simp
  have h2: "distinct [100, 95, 99, 94, 93 :: int]"
    by simp
  have h3: "map_of (habits ?d) (StrKey ''1'') = Some ?h"
    by simp
  have v: "compute_streaks 100 [100, 95, 99, 94, 93] = (2, 3)"
    by (simp add: compute_streaks_def)
  show ?thesis
    using h1 h2 update_streaks_longest_ge_current[OF h1 h2 h3, of 100]
    by (simp only: v)
qed

text \<open>
  C5. Scenario B: for the completion set of today and the three days 5, 6 and 7 days
  before it, in whatever order the log holds them, the recomputation gives a current
  streak of 1 and a longest streak of 3.
\<close>

theorem scenario_gap_after_three_days:
  assumes "distinct cs" and "set cs = {today, today - 5, today - 6, today - 7}"
  shows "compute_streaks today cs = (1, 3)"
proof -
  have "sort cs = [today - 7, today - 6, today - 5, today]"
  proof (rule sorted_distinct_set_unique)
    show "sorted (sort cs)" by simp
    show "distinct (sort cs)" using assms(1) by simp
    show "sorted [today - 7, today - 6, today - 5, today]" by simp
    show "distinct [today - 7, today - 6, today - 5, today]" by simp
    show "set (sort cs) = set [today - 7, today - 6, today - 5, today]"
      using assms(2) by auto
  qed
  then show ?thesis
    by (simp add: compute_streaks_def)
qed

theorem scenario_gap_after_three_days_witness:
  "distinct [95, 100, 93, 94 :: int]
   \<and> set [95, 100, 93, 94 :: int] = {100, 100 - 5, 100 - 6, 100 - 7}
   \<and> compute_streaks 100 [95, 100, 93, 94] = (1, 3)"
proof -
  have h1: "distinct [95, 100, 93, 94 :: int]"
    by simp
  have h2: "set [95, 100, 93, 94 :: int] = {100, 100 - 5, 100 - 6, 100 - 7}"
    by auto
  show ?thesis
    using h1 h2 scenario_gap_after_three_days[OF h1 h2] by simp
qed

text \<open>
  C6, as the code has it. The walk for the current streak starts at the newest
  completion. A log that holds a date after \<open>today\<close> has a newest date that is neither
  today nor yesterday, so the walk stops at once: the current streak is 0, whatever the
  dates up to today are.
\<close>

theorem future_date_current_streak_zero:
  assumes "d \<in> set cs" and "today < d"
  shows "fst (compute_streaks today cs) = 0"
proof (cases "sort cs")
  case Nil
  then show ?thesis by (simp add: compute_streaks_def)
next
  case (Cons a s)
  define m where "m = last (a # s)"
  define older where "older = rev (butlast (a # s))"
  have r: "rev (a # s) = m # older"
    unfolding m_def older_def by (rule rev_last_butlast) simp
  have "d \<in> set (a # s)"
    using assms(1) Cons by (metis set_sort)
  moreover have "sorted (a # s)"
    using Cons by (metis sorted_sort)
  ultimately have "d \<le> m"
    unfolding m_def by (rule sorted_le_last)
  with assms(2) have "current_loop today 0 (m # older) = 0"
    by simp
  then show ?thesis
    by (simp only: compute_streaks_def Cons list.case r fst_conv)
qed

theorem future_date_current_streak_zero_witness:
  "(11::int) \<in> set [10, 9, 11] \<and> (10::int) < 11 \<and> fst (compute_streaks 10 [10, 9, 11]) = 0"
proof -
  have h1: "(11::int) \<in> set [10, 9, 11]"
    by simp
  have h2: "(10::int) < 11"
    by simp
  show ?thesis
    using h1 h2 future_date_current_streak_zero[OF h1 h2] by simp
qed

text \<open>
  The claim as the specification words it fails: with today, yesterday and tomorrow
  logged, the dates up to today give a current streak of 2, the whole log gives 0.
\<close>

theorem future_date_counterexample:
  "fst (compute_streaks 10 [10, 9, 11]) = 0 \<and> fst (compute_streaks 10 [10, 9]) = 2"
  by (simp add: compute_streaks_def)



section \<open>Properties of the store operations\<close>

lemma update_new: "map_of al k = None \<Longrightarrow> AList.update k v al = al @ [(k, v)]"
  by (induction al) (auto split: if_splits)

lemma update_appended: "map_of al k = None \<Longrightarrow> AList.update k v (al @ [(k, w)]) = al @ [(k, v)]"
  by (induction al) (auto split: if_splits)

text \<open>
  C8. When the log of a habit already holds today's date, \<open>mark_complete\<close> prints
  "Already completed today!", returns \<open>False\<close> and leaves the tracker as it was: the
  log, every other entry of the store and the file are unchanged.
\<close>

theorem mark_complete_already_completed:
  assumes "map_of (completions (data t)) habit_id = Some logged"
    and "today \<in> set logged"
  shows "mark_complete today habit_id t = (Returned False, [AlreadyCompleted], t)"
  using assms by (simp add: mark_complete_def)

text \<open>
  The second of two calls on the same day: the first returns \<open>True\<close>, the second
  \<open>False\<close> with the tracker unchanged.
\<close>

theorem mark_complete_already_completed_witness:
  "mark_complete 100 (IntKey 1)
      (snd (snd (add_habit ''Run'' ''Health'' ''daily'' None ''2024-01-01T08:00:00'' (init None))))
    = (Returned True, [Marked ''Run''],
       apply_operations
         [AddHabit ''Run'' ''Health'' ''daily'' None ''2024-01-01T08:00:00'',
          MarkComplete 100 (IntKey 1)] (init None))
   \<and> map_of (completions (data (apply_operations
         [AddHabit ''Run'' ''Health'' ''daily'' None ''2024-01-01T08:00:00'',
          MarkComplete 100 (IntKey 1)] (init None)))) (IntKey 1) = Some [100]
   \<and> (100::int) \<in> set [100]
   \<and> mark_complete 100 (IntKey 1)
        (apply_operations
           [AddHabit ''Run'' ''Health'' ''daily'' None ''2024-01-01T08:00:00'',
            MarkComplete 100 (IntKey 1)] (init None))
      = (Returned False, [AlreadyCompleted],
         apply_operations
           [AddHabit ''Run'' ''Health'' ''daily'' None ''2024-01-01T08:00:00'',
            MarkComplete 100 (IntKey 1)] (init None))"
proof -
  let ?t = "apply_operations
         [AddHabit ''Run'' ''Health'' ''daily'' None ''2024-01-01T08:00:00'',
          MarkComplete 100 (IntKey 1)] (init None)"
  have h0: "mark_complete 100 (IntKey 1)
      (snd (snd (add_habit ''Run'' ''Health'' ''daily'' None ''2024-01-01T08:00:00'' (init None))))
    = (Returned True, [Marked ''Run''], ?t)"
    by code_simp
  have h1: "map_of (completions (data ?t)) (IntKey 1) = Some [100]"
    by code_simp
  have h2: "(100::int) \<in> set [100]"
    by simp
  show ?thesis
    using h0 h1 h2 mark_complete_already_completed[OF h1 h2] by simp
qed

text \<open>
  C2, as the code has it. For an identifier that is in neither dictionary,
  \<open>mark_complete\<close> has no check like the one of \<open>delete_habit\<close>: it creates the log
  entry, appends today's date, and then raises \<open>KeyError\<close> out of \<open>update_streaks\<close>,
  after the store has changed and before anything is saved or printed.
\<close>

theorem mark_complete_unknown_id_raises:
  assumes "map_of (habits (data t)) habit_id = None"
    and "map_of (completions (data t)) habit_id = None"
  shows "mark_complete today habit_id t =
           (Raised (KeyError habit_id), [],
            t\<lparr>data := (data t)\<lparr>completions := completions (data t) @ [(habit_id, [today])]\<rparr>\<rparr>)"
  using assms
  by (simp add: mark_complete_def Let_def update_streaks_def update_new update_appended map_add_def
      split: prod.splits)

text \<open>
  On a fresh tracker, for the identifier "7": the call raises, the menu loop answers
  "Invalid habit ID!", and the log entry for "7" stays in the store.
\<close>

theorem mark_complete_unknown_id_raises_witness:
  "map_of (habits (data (init None))) (StrKey ''7'') = None
   \<and> map_of (completions (data (init None))) (StrKey ''7'') = None
   \<and> mark_complete 100 (StrKey ''7'') (init None) =
       (Raised (KeyError (StrKey ''7'')), [],
        \<lparr>data = \<lparr>habits = [], completions = [(StrKey ''7'', [100])]\<rparr>, disk = None\<rparr>)
   \<and> run_mark_complete 100 ''7'' (init None) =
       ([InvalidHabitId],
        \<lparr>data = \<lparr>habits = [], completions = [(StrKey ''7'', [100])]\<rparr>, disk = None\<rparr>)"
proof -
  have h1: "map_of (habits (data (init None))) (StrKey ''7'') = None"
    by (simp add: init_def load_data_def)
  have h2: "map_of (completions (data (init None))) (StrKey ''7'') = None"
    by (simp add: init_def load_data_def)
  show ?thesis
    using h1 h2 mark_complete_unknown_id_raises[OF h1 h2, of 100]
    by (simp add: init_def load_data_def run_mark_complete_def)
qed

text \<open>
  C4, as the code has it. A fresh tracker has the same identifiers in both
  dictionaries; after one \<open>mark_complete\<close> it has a log entry without a habit, and
  the category statistics of that day, which look up the habit of every identifier
  completed today (line 196), raise \<open>KeyError\<close>.
\<close>

theorem mark_complete_unknown_id_breaks_link:
  "linked (data (init None))
   \<and> \<not> linked (data (apply_operations [MarkComplete today habit_id] (init None)))
   \<and> view_category_stats today
         (data (apply_operations [MarkComplete today habit_id] (init None)))
       = Inl (KeyError habit_id)"
  by (simp add: linked_def init_def load_data_def apply_operations_def mark_complete_def
      update_streaks_def view_category_stats_def get_today_completions_def
      split: prod.splits)


lemma keys_update: "set (map fst (AList.update k v al)) = insert k (set (map fst al))"
  using dom_update[of k v al] by simp

lemma keys_delete: "set (map fst (AList.delete k al)) = set (map fst al) - {k}"
  by (simp add: delete_keys)

lemma key_present: "map_of al k \<noteq> None \<longleftrightarrow> k \<in> set (map fst al)"
  by (simp add: map_of_eq_None_iff)

text \<open>
  The other operations keep the link: \<open>add_habit\<close> and \<open>delete_habit\<close> always, and
  \<open>mark_complete\<close> for an identifier that has a habit.
\<close>

lemma linked_add_habit:
  assumes "linked (data t)"
  shows "linked (data (snd (snd (add_habit nm cat freq gl now t))))"
  using assms key_present[of "completions (data t)"]
  by (auto simp: add_habit_def Let_def linked_def save_data_def keys_update
      simp del: set_map)

lemma linked_delete_habit:
  assumes "linked (data t)"
  shows "linked (data (snd (snd (delete_habit habit_id t))))"
proof (cases "map_of (habits (data t)) habit_id")
  case None
  then show ?thesis using assms by (simp add: delete_habit_def)
next
  case (Some h)
  then have "habit_id \<in> set (map fst (habits (data t)))"
    using key_present[of "habits (data t)" habit_id] by simp
  then have "habit_id \<in> set (map fst (completions (data t)))"
    using assms by (simp add: linked_def)
  then obtain cs where cs: "map_of (completions (data t)) habit_id = Some cs"
    using key_present[of "completions (data t)" habit_id] by auto
  show ?thesis
    using assms Some cs
    by (simp add: delete_habit_def Let_def linked_def save_data_def keys_delete del: set_map)
qed

lemma linked_mark_complete_known:
  assumes "linked (data t)" and "map_of (habits (data t)) habit_id = Some h"
  shows "linked (data (snd (snd (mark_complete today habit_id t))))"
proof -
  have "habit_id \<in> set (map fst (habits (data t)))"
    using assms(2) key_present[of "habits (data t)" habit_id] by simp
  then have inc: "habit_id \<in> set (map fst (completions (data t)))"
    using assms(1) by (simp add: linked_def)
  then obtain cs where cs: "map_of (completions (data t)) habit_id = Some cs"
    using key_present[of "completions (data t)" habit_id] by auto
  show ?thesis
  proof (cases "today \<in> set cs")
    case True
    then show ?thesis using assms(1) cs by (simp add: mark_complete_def)
  next
    case False
    have "insert habit_id (set (map fst (habits (data t)))) = set (map fst (habits (data t)))"
      using \<open>habit_id \<in> set (map fst (habits (data t)))\<close> by auto
    moreover have "insert habit_id (set (map fst (completions (data t)))) = set (map fst (completions (data t)))"
      using inc by auto
    ultimately show ?thesis
      using assms False cs
      by (simp add: mark_complete_def Let_def update_streaks_def update_conv' linked_def
          save_data_def keys_update split: prod.splits del: set_map)
  qed
qed

text \<open>
  C3, as the code has it. After add, add, a completion of habit 2 and the deletion of
  habit 1, one habit is left and it has the identifier 2; \<open>add_habit\<close> allocates
  \<open>len + 1 = 2\<close> again, replaces the live habit, and the new habit starts with the log
  of the old one.
\<close>

theorem add_habit_reuses_live_id:
  "map_of (habits (data (apply_operations
       [AddHabit ''Run'' ''Health'' ''daily'' None ''2024-01-01T08:00:00'',
        AddHabit ''Read'' ''Learning'' ''daily'' None ''2024-01-01T08:01:00'',
        MarkComplete 100 (IntKey 2),
        DeleteHabit (IntKey 1)] (init None)))) (IntKey 2)
     = Some \<lparr>name = ''Read'', category = ''Learning'', frequency = ''daily'', goal = None,
             created_date = ''2024-01-01T08:01:00'', current_streak = 1, longest_streak = 1\<rparr>
   \<and> fst (add_habit ''Save'' ''Finance'' ''daily'' None ''2024-01-02T09:00:00''
       (apply_operations
         [AddHabit ''Run'' ''Health'' ''daily'' None ''2024-01-01T08:00:00'',
          AddHabit ''Read'' ''Learning'' ''daily'' None ''2024-01-01T08:01:00'',
          MarkComplete 100 (IntKey 2),
          DeleteHabit (IntKey 1)] (init None))) = Returned (IntKey 2)
   \<and> data (snd (snd (add_habit ''Save'' ''Finance'' ''daily'' None ''2024-01-02T09:00:00''
       (apply_operations
         [AddHabit ''Run'' ''Health'' ''daily'' None ''2024-01-01T08:00:00'',
          AddHabit ''Read'' ''Learning'' ''daily'' None ''2024-01-01T08:01:00'',
          MarkComplete 100 (IntKey 2),
          DeleteHabit (IntKey 1)] (init None)))))
     = \<lparr>habits = [(IntKey 2,
           \<lparr>name = ''Save'', category = ''Finance'', frequency = ''daily'', goal = None,
            created_date = ''2024-01-02T09:00:00'', current_streak = 0, longest_streak = 0\<rparr>)],
        completions = [(IntKey 2, [100])]\<rparr>"
  by code_simp


section \<open>Properties of the persistence\<close>

lemma json_object_acc:
  "distinct (map fst ms) \<Longrightarrow> (\<forall>k \<in> set (map fst ms). map_of acc (StrKey k) = None) \<Longrightarrow>
   foldl (\<lambda>d (k, v). AList.update (StrKey k) v d) acc ms =
     acc @ map (\<lambda>(k, v). (StrKey k, v)) ms"
proof (induction ms arbitrary: acc)
  case Nil
  show ?case by simp
next
  case (Cons m ms)
  obtain k v where m: "m = (k, v)" by (cases m)
  have new: "AList.update (StrKey k) v acc = acc @ [(StrKey k, v)]"
    using Cons.prems(2) m by (simp add: update_new)
  have d: "distinct (map fst ms)" and notin: "k \<notin> set (map fst ms)"
    using Cons.prems(1) m by simp_all
  have free: "\<forall>k' \<in> set (map fst ms). map_of (acc @ [(StrKey k, v)]) (StrKey k') = None"
    using Cons.prems(2) notin by (auto simp: map_add_def)
  show ?case
    using Cons.IH[OF d free] by (simp add: m new)
qed

lemma json_object_distinct:
  "distinct (map fst ms) \<Longrightarrow> json_object ms = map (\<lambda>(k, v). (StrKey k, v)) ms"
  using json_object_acc[of ms "[]"] by (simp add: json_object_def)

lemma json_object_dump:
  assumes "distinct (map (json_key \<circ> fst) al)"
  shows "json_object (map (\<lambda>(k, v). (json_key k, v)) al) = map (\<lambda>(k, v). (StrKey (json_key k), v)) al"
proof -
  have eq: "map fst (map (\<lambda>(k, v). (json_key k, v)) al) = map (json_key \<circ> fst) al"
    by (induction al) auto
  have "json_object (map (\<lambda>(k, v). (json_key k, v)) al)
      = map (\<lambda>(k, v). (StrKey k, v)) (map (\<lambda>(k, v). (json_key k, v)) al)"
    by (rule json_object_distinct) (simp only: eq assms)
  also have "\<dots> = map (\<lambda>(k, v). (StrKey (json_key k), v)) al"
    by (induction al) auto
  finally show ?thesis .
qed

lemma str_keys_unchanged:
  "list_all (\<lambda>k. case k of StrKey s \<Rightarrow> True | IntKey i \<Rightarrow> False) (map fst al) \<Longrightarrow>
   map (\<lambda>(k, v). (StrKey (json_key k), v)) al = al"
  by (induction al) (auto split: key.splits)

text \<open>
  Where the round trip holds. When the string forms of the identifiers of each
  dictionary differ from each other, saving and loading gives the same entries in the
  same order, each identifier in its string form; a store whose identifiers are all
  strings comes back identical.
\<close>

lemma save_load_string_forms:
  assumes "distinct (map (json_key \<circ> fst) (habits (data t)))"
    and "distinct (map (json_key \<circ> fst) (completions (data t)))"
  shows "load_data (save_data t) =
           \<lparr>habits = map (\<lambda>(k, h). (StrKey (json_key k), h)) (habits (data t)),
            completions = map (\<lambda>(k, cs). (StrKey (json_key k), cs)) (completions (data t))\<rparr>
         \<and> (all_str_keys (data t) \<longrightarrow> load_data (save_data t) = data t)"
proof -
  have l: "load_data (save_data t) =
           \<lparr>habits = map (\<lambda>(k, h). (StrKey (json_key k), h)) (habits (data t)),
            completions = map (\<lambda>(k, cs). (StrKey (json_key k), cs)) (completions (data t))\<rparr>"
    by (simp add: load_data_def save_data_def json_load_def json_dump_def
        json_object_dump[OF assms(1)] json_object_dump[OF assms(2)])
  moreover have "load_data (save_data t) = data t" if "all_str_keys (data t)"
    using that by (simp add: l all_str_keys_def str_keys_unchanged)
  ultimately show ?thesis by blast
qed

text \<open>
  C7, as the code has it. \<open>add_habit\<close> keys the new habit by the integer
  \<open>len + 1\<close>, the file and the menu use strings, and \<open>json.dump\<close> writes an integer
  key as its decimal string. The habit added to a fresh tracker has the key 1 in the
  store and the key "1" after saving and loading: the store is not the same. With the
  habits "1" and "2" loaded from the file, "1" deleted at the menu and a habit added,
  the store holds the keys "2" and 2; both are written as "2", and loading keeps one
  entry: the habit 'Read' and its log are lost.
\<close>

theorem save_load_loses_session_habit_key:
  "data (snd (snd (add_habit ''Run'' ''Health'' ''daily'' None ''2024-01-01T08:00:00'' (init None))))
     = \<lparr>habits = [(IntKey 1,
           \<lparr>name = ''Run'', category = ''Health'', frequency = ''daily'', goal = None,
              created_date = ''2024-01-01T08:00:00'', current_streak = 0, longest_streak = 0\<rparr>)],
        completions = [(IntKey 1, [])]\<rparr>
   \<and> load_data (save_data
       (snd (snd (add_habit ''Run'' ''Health'' ''daily'' None ''2024-01-01T08:00:00'' (init None)))))
     = \<lparr>habits = [(StrKey ''1'',
           \<lparr>name = ''Run'', category = ''Health'', frequency = ''daily'', goal = None,
              created_date = ''2024-01-01T08:00:00'', current_streak = 0, longest_streak = 0\<rparr>)],
        completions = [(StrKey ''1'', [])]\<rparr>
   \<and> load_data (save_data
       (snd (snd (add_habit ''Run'' ''Health'' ''daily'' None ''2024-01-01T08:00:00'' (init None)))))
     \<noteq> data (snd (snd (add_habit ''Run'' ''Health'' ''daily'' None ''2024-01-01T08:00:00'' (init None))))
   \<and> data
       (apply_operations
        [DeleteHabit (StrKey ''1''),
         AddHabit ''Save'' ''Finance'' ''daily'' None ''2024-01-02T09:00:00'']
        (init
          (Some \<lparr>json_habits =
            [(''1'', \<lparr>name = ''Run'', category = ''Health'', frequency = ''daily'', goal = None,
              created_date = ''2024-01-01T08:00:00'', current_streak = 0, longest_streak = 0\<rparr>),
             (''2'', \<lparr>name = ''Read'', category = ''Learning'', frequency = ''daily'', goal = None,
              created_date = ''2024-01-01T08:01:00'', current_streak = 1, longest_streak = 1\<rparr>)],
          json_completions = [(''1'', []), (''2'', [99])]\<rparr>)))
     = \<lparr>habits =
          [(StrKey ''2'',
            \<lparr>name = ''Read'', category = ''Learning'', frequency = ''daily'', goal = None,
              created_date = ''2024-01-01T08:01:00'', current_streak = 1, longest_streak = 1\<rparr>),
           (IntKey 2,
            \<lparr>name = ''Save'', category = ''Finance'', frequency = ''daily'', goal = None,
              created_date = ''2024-01-02T09:00:00'', current_streak = 0, longest_streak = 0\<rparr>)],
        completions = [(StrKey ''2'', [99]), (IntKey 2, [])]\<rparr>
   \<and> load_data (save_data
       (apply_operations
        [DeleteHabit (StrKey ''1''),
         AddHabit ''Save'' ''Finance'' ''daily'' None ''2024-01-02T09:00:00'']
        (init
          (Some \<lparr>json_habits =
            [(''1'', \<lparr>name = ''Run'', category = ''Health'', frequency = ''daily'', goal = None,
              created_date = ''2024-01-01T08:00:00'', current_streak = 0, longest_streak = 0\<rparr>),
             (''2'', \<lparr>name = ''Read'', category = ''Learning'', frequency = ''daily'', goal = None,
              created_date = ''2024-01-01T08:01:00'', current_streak = 1, longest_streak = 1\<rparr>)],
          json_completions = [(''1'', []), (''2'', [99])]\<rparr>))))
     = \<lparr>habits =
          [(StrKey ''2'',
            \<lparr>name = ''Save'', category = ''Finance'', frequency = ''daily'', goal = None,
              created_date = ''2024-01-02T09:00:00'', current_streak = 0, longest_streak = 0\<rparr>)],
        completions = [(StrKey ''2'', [])]\<rparr>"
  by code_simp


section \<open>Properties of the reports\<close>

lemma percentage_value:
  "percentage c w = Inr (if w > 0 then of_int c / of_int w * 100 else 0)"
  by (simp add: percentage_def true_div_def)

lemma average_value:
  "average ss = Inr (if ss \<noteq> [] then of_int (sum_list ss) / of_int (int (length ss)) else 0)"
  by (simp add: average_def true_div_def)

lemma day_line_of_value:
  "day_line_of day c w =
     Inr \<lparr>line_date = day, line_completed = c, line_total = w,
          line_percentage = (if w > 0 then of_int c / of_int w * 100 else 0),
          line_full = py_int ((if w > 0 then of_int c / of_int w * 100 else 0) / 20),
          line_empty = 5 - py_int ((if w > 0 then of_int c / of_int w * 100 else 0) / 20)\<rparr>"
  by (simp add: day_line_of_def percentage_value true_div_def)

lemma collect_all_returned: "collect (map (\<lambda>x. Inr (g x)) xs) = Inr (map g xs)"
  by (induction xs) auto

lemma category_line_of_value:
  "category_line_of e =
     Inr \<lparr>cat_name = fst e, cat_completed = n_completed (snd e), cat_total = n_total (snd e),
          cat_rate = (if n_total (snd e) > 0
                      then of_int (n_completed (snd e)) / of_int (n_total (snd e)) * 100 else 0),
          cat_average = (if streak_list (snd e) \<noteq> []
                         then of_int (sum_list (streak_list (snd e)))
                              / of_int (int (length (streak_list (snd e))))
                         else 0),
          cat_best = best (streak_list (snd e))\<rparr>"
  by (simp add: category_line_of_def percentage_value average_value Let_def)

lemma in_update: "e \<in> set (AList.update k v al) \<Longrightarrow> e = (k, v) \<or> e \<in> set al"
  by (induction al) (auto split: if_splits)

lemma stats_of_nonneg: "totals_nonneg st \<Longrightarrow> 0 \<le> n_total (stats_of st c)"
proof (cases "map_of st c")
  case None
  then show ?thesis by (simp add: stats_of_def)
next
  case (Some s)
  then have "(c, s) \<in> set st" by (rule map_of_SomeD)
  moreover assume "totals_nonneg st"
  ultimately have "0 \<le> n_total (snd (c, s))"
    unfolding totals_nonneg_def by blast
  then show ?thesis using Some by (simp add: stats_of_def)
qed

lemma count_habit_nonneg: "totals_nonneg st \<Longrightarrow> totals_nonneg (count_habit st e)"
  using stats_of_nonneg[of st "category (snd e)"]
  by (auto simp: totals_nonneg_def count_habit_def Let_def dest!: in_update)

lemma foldl_count_habit_nonneg: "totals_nonneg st \<Longrightarrow> totals_nonneg (foldl count_habit st hs)"
  by (induction hs arbitrary: st) (auto simp: count_habit_nonneg)

lemma count_completed_nonneg:
  "totals_nonneg st \<Longrightarrow> count_completed hs ks st = Inr st' \<Longrightarrow> totals_nonneg st'"
proof (induction ks arbitrary: st)
  case Nil
  then show ?case by simp
next
  case (Cons k ks)
  from Cons.prems(2) obtain h where h: "map_of hs k = Some h"
    by (cases "map_of hs k") auto
  let ?s = "stats_of st (category h)"
  let ?st = "AList.update (category h) (?s\<lparr>n_completed := n_completed ?s + 1\<rparr>) st"
  have "totals_nonneg ?st"
    using Cons.prems(1) stats_of_nonneg[OF Cons.prems(1), of "category h"]
    by (auto simp: totals_nonneg_def dest!: in_update)
  moreover have "count_completed hs ks ?st = Inr st'"
    using Cons.prems(2) h by (simp add: Let_def)
  ultimately show ?case by (rule Cons.IH)
qed

lemma count_completed_error:
  "count_completed hs ks st = Inl e \<Longrightarrow> \<exists>k. e = KeyError k"
  by (induction ks arbitrary: st) (auto simp: Let_def split: option.splits)

text \<open>
  C9. The weekly report always returns: each day's percentage is completed / total
  * 100, and 0 when there are no habits; the week's percentage is the same expression
  of the week's completions and \<open>habit_count * 7\<close>. The category statistics never raise
  \<open>ZeroDivisionError\<close>, and when they return, each category's rate is completed / total
  * 100, and 0 for a total of 0. The average of an empty list of streaks is 0. Every
  division of the two reports is a \<open>true_div\<close>, which raises on a zero divisor, so no
  division by zero is performed.
\<close>

theorem reports_never_divide_by_zero:
  "(\<exists>r. view_weekly_report today d = Inr r
       \<and> (\<forall>l \<in> set (week_lines r).
            line_percentage l =
              (if line_total l = 0 then 0
               else of_int (line_completed l) / of_int (line_total l) * 100))
       \<and> week_percentage r =
            (if week_possible r = 0 then 0
             else of_int (week_completed r) / of_int (week_possible r) * 100))
   \<and> view_category_stats today d \<noteq> Inl ZeroDivisionError
   \<and> (\<forall>ls. view_category_stats today d = Inr ls \<longrightarrow>
         (\<forall>l \<in> set ls.
            cat_rate l =
              (if cat_total l = 0 then 0
               else of_int (cat_completed l) / of_int (cat_total l) * 100)))
   \<and> average [] = Inr 0"
proof (intro conjI)
  let ?n = "int (length (habits d))"
  let ?line = "\<lambda>(day, c).
     \<lparr>line_date = day, line_completed = c, line_total = ?n,
      line_percentage = (if ?n > 0 then of_int c / of_int ?n * 100 else 0),
      line_full = py_int ((if ?n > 0 then of_int c / of_int ?n * 100 else 0) / 20),
      line_empty = 5 - py_int ((if ?n > 0 then of_int c / of_int ?n * 100 else 0) / 20)\<rparr>"
  let ?pairs = "zip (week_dates today) (map (day_completions d) (week_dates today))"
  have f: "(\<lambda>(day, completed). day_line_of day completed ?n) = (\<lambda>x. Inr (?line x))"
    by (auto simp: day_line_of_value fun_eq_iff)
  have lines: "collect (map (\<lambda>(day, completed). day_line_of day completed ?n) ?pairs)
      = Inr (map ?line ?pairs)"
    unfolding f by (rule collect_all_returned)
  have "view_weekly_report today d =
      Inr \<lparr>week_lines = map ?line ?pairs,
           week_completed = sum_list (map (day_completions d) (week_dates today)),
           week_possible = ?n * 7,
           week_percentage =
             (if ?n * 7 > 0
              then of_int (sum_list (map (day_completions d) (week_dates today)))
                   / of_int (?n * 7) * 100
              else 0)\<rparr>"
    unfolding view_weekly_report_def Let_def lines percentage_value by simp
  then show "\<exists>r. view_weekly_report today d = Inr r
       \<and> (\<forall>l \<in> set (week_lines r).
            line_percentage l =
              (if line_total l = 0 then 0
               else of_int (line_completed l) / of_int (line_total l) * 100))
       \<and> week_percentage r =
            (if week_possible r = 0 then 0
             else of_int (week_completed r) / of_int (week_possible r) * 100)"
    by auto
next
  show "view_category_stats today d \<noteq> Inl ZeroDivisionError"
    by (auto simp: view_category_stats_def category_line_of_value[abs_def] collect_all_returned
        split: sum.splits dest: count_completed_error)
next
  show "\<forall>ls. view_category_stats today d = Inr ls \<longrightarrow>
         (\<forall>l \<in> set ls.
            cat_rate l =
              (if cat_total l = 0 then 0
               else of_int (cat_completed l) / of_int (cat_total l) * 100))"
  proof (intro allI impI ballI)
    fix ls l
    assume v: "view_category_stats today d = Inr ls" and l: "l \<in> set ls"
    from v obtain st where st: "count_completed (habits d) (get_today_completions today d)
             (foldl count_habit [] (habits d)) = Inr st"
      and ls: "collect (map category_line_of st) = Inr ls"
      by (auto simp: view_category_stats_def split: sum.splits)
    have "totals_nonneg (foldl count_habit [] (habits d))"
      by (rule foldl_count_habit_nonneg) (simp add: totals_nonneg_def)
    then have nn: "totals_nonneg st"
      using st by (rule count_completed_nonneg)
    from ls have "ls = map (\<lambda>e. \<lparr>cat_name = fst e, cat_completed = n_completed (snd e), cat_total = n_total (snd e),
          cat_rate = (if n_total (snd e) > 0
                      then of_int (n_completed (snd e)) / of_int (n_total (snd e)) * 100 else 0),
          cat_average = (if streak_list (snd e) \<noteq> []
                         then of_int (sum_list (streak_list (snd e)))
                              / of_int (int (length (streak_list (snd e))))
                         else 0),
          cat_best = best (streak_list (snd e))\<rparr>) st"
      by (simp add: category_line_of_value[abs_def] collect_all_returned)
    with l obtain e where "e \<in> set st" and "l = \<lparr>cat_name = fst e, cat_completed = n_completed (snd e), cat_total = n_total (snd e),
          cat_rate = (if n_total (snd e) > 0
                      then of_int (n_completed (snd e)) / of_int (n_total (snd e)) * 100 else 0),
          cat_average = (if streak_list (snd e) \<noteq> []
                         then of_int (sum_list (streak_list (snd e)))
                              / of_int (int (length (streak_list (snd e))))
                         else 0),
          cat_best = best (streak_list (snd e))\<rparr>"
      by auto
    moreover from this nn have "0 \<le> n_total (snd e)"
      by (simp add: totals_nonneg_def)
    ultimately show "cat_rate l =
              (if cat_total l = 0 then 0
               else of_int (cat_completed l) / of_int (cat_total l) * 100)"
      by auto
  qed
next
  show "average [] = Inr 0"
    by (simp add: average_def)
qed

text \<open>
  Two habits, the first completed on Monday and Tuesday, the second on Monday only, in
  the week of day 100 (a Tuesday); and the empty store, where every total is 0.
\<close>

theorem reports_never_divide_by_zero_witness:
  "(\<exists>r. view_weekly_report 100
          \<lparr>habits =
             [(StrKey ''1'',
               \<lparr>name = ''Run'', category = ''Health'', frequency = ''daily'', goal = None,
                created_date = ''2024-01-01T08:00:00'', current_streak = 2,
                longest_streak = 2\<rparr>),
              (StrKey ''2'',
               \<lparr>name = ''Read'', category = ''Learning'', frequency = ''daily'', goal = None,
                created_date = ''2024-01-01T08:01:00'', current_streak = 0,
                longest_streak = 1\<rparr>)],
           completions = [(StrKey ''1'', [99, 100]), (StrKey ''2'', [99])]\<rparr> = Inr r
        \<and> map line_completed (week_lines r) = [2, 1, 0, 0, 0, 0, 0]
        \<and> map line_total (week_lines r) = [2, 2, 2, 2, 2, 2, 2]
        \<and> map line_percentage (week_lines r) = [100, 50, 0, 0, 0, 0, 0]
        \<and> week_percentage r = 150 / 7)
   \<and> (\<exists>r. view_weekly_report 100 \<lparr>habits = [], completions = []\<rparr> = Inr r
        \<and> map line_total (week_lines r) = [0, 0, 0, 0, 0, 0, 0]
        \<and> map line_percentage (week_lines r) = [0, 0, 0, 0, 0, 0, 0]
        \<and> week_possible r = 0
        \<and> week_percentage r = 0)
   \<and> (\<exists>ls. view_category_stats 100
          \<lparr>habits =
             [(StrKey ''1'',
               \<lparr>name = ''Run'', category = ''Health'', frequency = ''daily'', goal = None,
                created_date = ''2024-01-01T08:00:00'', current_streak = 2,
                longest_streak = 2\<rparr>),
              (StrKey ''2'',
               \<lparr>name = ''Read'', category = ''Learning'', frequency = ''daily'', goal = None,
                created_date = ''2024-01-01T08:01:00'', current_streak = 0,
                longest_streak = 1\<rparr>)],
           completions = [(StrKey ''1'', [99, 100]), (StrKey ''2'', [99])]\<rparr> = Inr ls
        \<and> map cat_name ls = [''Health'', ''Learning'']
        \<and> map cat_total ls = [1, 1]
        \<and> map cat_rate ls = [100, 0]
        \<and> map cat_average ls = [2, 0])
   \<and> average [] = Inr 0"
proof -
  let ?d = "\<lparr>habits =
             [(StrKey ''1'',
               \<lparr>name = ''Run'', category = ''Health'', frequency = ''daily'', goal = None,
                created_date = ''2024-01-01T08:00:00'', current_streak = 2,
                longest_streak = 2\<rparr>),
              (StrKey ''2'',
               \<lparr>name = ''Read'', category = ''Learning'', frequency = ''daily'', goal = None,
                created_date = ''2024-01-01T08:01:00'', current_streak = 0,
                longest_streak = 1\<rparr>)],
           completions = [(StrKey ''1'', [99, 100]), (StrKey ''2'', [99])]\<rparr>"
  let ?e = "\<lparr>habits = [], completions = []\<rparr>"
  have v1: "view_weekly_report 100 ?d =
      Inr \<lparr>week_lines =
        [\<lparr>line_date = 99, line_completed = 2, line_total = 2,
            line_percentage = 100, line_full = 5, line_empty = 0\<rparr>,
         \<lparr>line_date = 100, line_completed = 1, line_total = 2,
            line_percentage = 50, line_full = 2, line_empty = 3\<rparr>,
         \<lparr>line_date = 101, line_completed = 0, line_total = 2,
            line_percentage = 0, line_full = 0, line_empty = 5\<rparr>,
         \<lparr>line_date = 102, line_completed = 0, line_total = 2,
            line_percentage = 0, line_full = 0, line_empty = 5\<rparr>,
         \<lparr>line_date = 103, line_completed = 0, line_total = 2,
            line_percentage = 0, line_full = 0, line_empty = 5\<rparr>,
         \<lparr>line_date = 104, line_completed = 0, line_total = 2,
            line_percentage = 0, line_full = 0, line_empty = 5\<rparr>,
         \<lparr>line_date = 105, line_completed = 0, line_total = 2,
            line_percentage = 0, line_full = 0, line_empty = 5\<rparr>],
        week_completed = 3, week_possible = 14, week_percentage = 150 / 7\<rparr>"
    by code_simp
  have v2: "view_weekly_report 100 ?e =
      Inr \<lparr>week_lines =
        [\<lparr>line_date = 99, line_completed = 0, line_total = 0,
            line_percentage = 0, line_full = 0, line_empty = 5\<rparr>,
         \<lparr>line_date = 100, line_completed = 0, line_total = 0,
            line_percentage = 0, line_full = 0, line_empty = 5\<rparr>,
         \<lparr>line_date = 101, line_completed = 0, line_total = 0,
            line_percentage = 0, line_full = 0, line_empty = 5\<rparr>,
         \<lparr>line_date = 102, line_completed = 0, line_total = 0,
            line_percentage = 0, line_full = 0, line_empty = 5\<rparr>,
         \<lparr>line_date = 103, line_completed = 0, line_total = 0,
            line_percentage = 0, line_full = 0, line_empty = 5\<rparr>,
         \<lparr>line_date = 104, line_completed = 0, line_total = 0,
            line_percentage = 0, line_full = 0, line_empty = 5\<rparr>,
         \<lparr>line_date = 105, line_completed = 0, line_total = 0,
            line_percentage = 0, line_full = 0, line_empty = 5\<rparr>],
        week_completed = 0, week_possible = 0, week_percentage = 0\<rparr>"
    by code_simp
  have v3: "view_category_stats 100 ?d =
      Inr [\<lparr>cat_name = ''Health'', cat_completed = 1, cat_total = 1,
            cat_rate = 100, cat_average = 2, cat_best = 2\<rparr>,
           \<lparr>cat_name = ''Learning'', cat_completed = 0, cat_total = 1,
            cat_rate = 0, cat_average = 0, cat_best = 0\<rparr>]"
    by code_simp
  show ?thesis
    using reports_never_divide_by_zero[of 100 ?d] reports_never_divide_by_zero[of 100 ?e]
    by (simp add: v1 v2 v3)
qed


section \<open>Integer and string identifiers\<close>

lemma digits10_nonempty: "digits10 n \<noteq> []"
  by (subst digits10.simps) simp

lemma str_int_nonempty: "str_int i \<noteq> []"
  by (simp add: str_int_def digits10_nonempty)

text \<open>
  C10, as the code has it. Identifiers are compared by exact key equality: the habit
  that \<open>add_habit\<close> enters has the integer \<open>len + 1\<close> as its key. When no habit has
  the string form of that integer as its key, \<open>delete_habit\<close> with the string form
  (what the menu loop passes on) prints "Habit not found!" and changes nothing, and the
  new habit stays.
\<close>

theorem string_id_misses_session_habit:
  assumes "map_of (habits (data t)) (StrKey (str_int (int (length (habits (data t))) + 1))) = None"
  shows "\<exists>t'. add_habit nm cat freq gl now t =
                (Returned (IntKey (int (length (habits (data t))) + 1)), [Added nm], t')
          \<and> map_of (habits (data t')) (IntKey (int (length (habits (data t))) + 1)) \<noteq> None
          \<and> delete_habit (StrKey (str_int (int (length (habits (data t))) + 1))) t' =
                (Returned (), [NotFound], t')
          \<and> run_delete_habit (str_int (int (length (habits (data t))) + 1)) t' =
                ([NotFound], t')"
  using assms
  by (simp add: add_habit_def Let_def delete_habit_def run_delete_habit_def save_data_def
      update_conv' str_int_nonempty)

theorem string_id_misses_session_habit_witness:
  "map_of (habits (data (init None))) (StrKey (str_int (int (length (habits (data (init None)))) + 1))) = None
   \<and> (\<exists>t'. add_habit ''Run'' ''Health'' ''daily'' None ''2024-01-01T08:00:00'' (init None) =
                (Returned (IntKey 1), [Added ''Run''], t')
          \<and> map_of (habits (data t')) (IntKey 1) \<noteq> None
          \<and> delete_habit (StrKey ''1'') t' = (Returned (), [NotFound], t')
          \<and> run_delete_habit ''1'' t' = ([NotFound], t'))"
proof -
  have h: "map_of (habits (data (init None)))
      (StrKey (str_int (int (length (habits (data (init None)))) + 1))) = None"
    by (simp add: init_def load_data_def)
  have n: "int (length (habits (data (init None)))) + 1 = 1"
    by (simp add: init_def load_data_def)
  have s: "str_int 1 = ''1''"
    by code_simp
  show ?thesis
    using h string_id_misses_session_habit[OF h, of "''Run''" "''Health''" "''daily''" None
        "''2024-01-01T08:00:00''"]
    by (simp add: n s)
qed

text \<open>
  The claim as worded fails when a loaded habit has that string as its key. The file
  holds the habits "1", "2" and "3"; "1" is deleted; \<open>add_habit\<close> then allocates the
  integer 3. Deleting "3" does not report "not found": it removes the loaded habit "3"
  and the store changes.
\<close>

theorem string_id_deletes_loaded_habit_counterexample:
  "map fst (habits (data (apply_operations [DeleteHabit (StrKey ''1'')]
      (init (Some
         \<lparr>json_habits =
            [(''1'', \<lparr>name = ''Run'', category = ''Health'', frequency = ''daily'', goal = None,
                     created_date = ''2024-01-01T08:00:00'', current_streak = 0,
                     longest_streak = 0\<rparr>),
             (''2'', \<lparr>name = ''Read'', category = ''Learning'', frequency = ''daily'',
                     goal = None, created_date = ''2024-01-01T08:01:00'', current_streak = 0,
                     longest_streak = 0\<rparr>),
             (''3'', \<lparr>name = ''Write'', category = ''Learning'', frequency = ''daily'',
                     goal = None, created_date = ''2024-01-01T08:02:00'', current_streak = 0,
                     longest_streak = 0\<rparr>)],
          json_completions = [(''1'', []), (''2'', []), (''3'', [])]\<rparr>)))))
     = [StrKey ''2'', StrKey ''3'']
   \<and> fst (add_habit ''Save'' ''Finance'' ''daily'' None ''2024-01-02T09:00:00''
        (apply_operations [DeleteHabit (StrKey ''1'')]
      (init (Some
         \<lparr>json_habits =
            [(''1'', \<lparr>name = ''Run'', category = ''Health'', frequency = ''daily'', goal = None,
                     created_date = ''2024-01-01T08:00:00'', current_streak = 0,
                     longest_streak = 0\<rparr>),
             (''2'', \<lparr>name = ''Read'', category = ''Learning'', frequency = ''daily'',
                     goal = None, created_date = ''2024-01-01T08:01:00'', current_streak = 0,
                     longest_streak = 0\<rparr>),
             (''3'', \<lparr>name = ''Write'', category = ''Learning'', frequency = ''daily'',
                     goal = None, created_date = ''2024-01-01T08:02:00'', current_streak = 0,
                     longest_streak = 0\<rparr>)],
          json_completions = [(''1'', []), (''2'', []), (''3'', [])]\<rparr>))))
     = Returned (IntKey 3)
   \<and> str_int 3 = ''3''
   \<and> fst (snd (delete_habit (StrKey (str_int 3))
        (apply_operations
           [DeleteHabit (StrKey ''1''),
            AddHabit ''Save'' ''Finance'' ''daily'' None ''2024-01-02T09:00:00'']
      (init (Some
         \<lparr>json_habits =
            [(''1'', \<lparr>name = ''Run'', category = ''Health'', frequency = ''daily'', goal = None,
                     created_date = ''2024-01-01T08:00:00'', current_streak = 0,
                     longest_streak = 0\<rparr>),
             (''2'', \<lparr>name = ''Read'', category = ''Learning'', frequency = ''daily'',
                     goal = None, created_date = ''2024-01-01T08:01:00'', current_streak = 0,
                     longest_streak = 0\<rparr>),
             (''3'', \<lparr>name = ''Write'', category = ''Learning'', frequency = ''daily'',
                     goal = None, created_date = ''2024-01-01T08:02:00'', current_streak = 0,
                     longest_streak = 0\<rparr>)],
          json_completions = [(''1'', []), (''2'', []), (''3'', [])]\<rparr>)))))
     = [Deleted ''Write'']
   \<and> map fst (habits (data (apply_operations
           [DeleteHabit (StrKey ''1''),
            AddHabit ''Save'' ''Finance'' ''daily'' None ''2024-01-02T09:00:00'',
            DeleteHabit (StrKey (str_int 3))]
      (init (Some
         \<lparr>json_habits =
            [(''1'', \<lparr>name = ''Run'', category = ''Health'', frequency = ''daily'', goal = None,
                     created_date = ''2024-01-01T08:00:00'', current_streak = 0,
                     longest_streak = 0\<rparr>),
             (''2'', \<lparr>name = ''Read'', category = ''Learning'', frequency = ''daily'',
                     goal = None, created_date = ''2024-01-01T08:01:00'', current_streak = 0,
                     longest_streak = 0\<rparr>),
             (''3'', \<lparr>name = ''Write'', category = ''Learning'', frequency = ''daily'',
                     goal = None, created_date = ''2024-01-01T08:02:00'', current_streak = 0,
                     longest_streak = 0\<rparr>)],
          json_completions = [(''1'', []), (''2'', []), (''3'', [])]\<rparr>)))))
     = [StrKey ''2'', IntKey 3]"
  by code_simp

end
